theory Spec2Isabelle
  imports Main "HOL-Library.AList"
begin

section \<open>Python values, errors and sequencing\<close>

text \<open>
  The module \<^verbatim>\<open>oceanspy/_ospy_utils.py\<close> works on Python objects. The values that the
  functions modelled here read and store (axis shifts, attribute values, placement codes,
  array elements) are \<open>None\<close>, booleans, integers, floats and strings. The functions only
  ever ask a float for its truth value and for its string form, so a float is represented
  by its \<^verbatim>\<open>repr\<close> (the text \<^verbatim>\<open>str\<close> returns for it): \<^verbatim>\<open>0.5\<close> is \<open>PFloat ''0.5''\<close>.
\<close>

datatype pyval = PNone | PBool bool | PInt int | PFloat string | PStr string

text \<open>Every exception the modelled code can raise is a value; \<open>Inl\<close> carries it.\<close>

datatype error =
    IndexError
  | ValueError
  | TypeError
  | KeyError pyval
  | NameError string
  | AttributeError string

definition ebind :: "error + 'a \<Rightarrow> ('a \<Rightarrow> error + 'b) \<Rightarrow> error + 'b" where
  "ebind m f = (case m of Inl e \<Rightarrow> Inl e | Inr x \<Rightarrow> f x)"

text \<open>Python's truth value of an object, as tested by \<^verbatim>\<open>if shift:\<close>.\<close>

fun truthy :: "pyval \<Rightarrow> bool" where
  "truthy PNone = False"
| "truthy (PBool b) = b"
| "truthy (PInt i) = (i \<noteq> 0)"
| "truthy (PFloat r) = (r \<noteq> ''0.0'' \<and> r \<noteq> ''-0.0'')"
| "truthy (PStr s) = (s \<noteq> [])"

text \<open>Python's \<^verbatim>\<open>str\<close>: decimal digits for an integer, the text itself for a string.\<close>

fun str_nat :: "nat \<Rightarrow> string" where
  "str_nat n =
     (if n < 10 then [''0123456789'' ! n]
      else str_nat (n div 10) @ [''0123456789'' ! (n mod 10)])"

declare str_nat.simps [simp del]

fun py_str :: "pyval \<Rightarrow> string" where
  "py_str PNone = ''None''"
| "py_str (PBool b) = (if b then ''True'' else ''False'')"
| "py_str (PInt i) = (if i < 0 then ''-'' @ str_nat (nat (- i)) else str_nat (nat i))"
| "py_str (PFloat r) = r"
| "py_str (PStr s) = s"

text \<open>
  \<^verbatim>\<open>s[i]\<close> for a constant index \<open>i \<ge> 0\<close> raises IndexError past the end; \<^verbatim>\<open>int(c)\<close> of a
  one-character string is the digit's value and raises ValueError for any other
  character (characters here are the code points below 256, where the decimal digits
  are \<^verbatim>\<open>0\<close> to \<^verbatim>\<open>9\<close> only); \<^verbatim>\<open>d[k]\<close> on a dict raises KeyError for a missing key.
\<close>

definition str_index :: "string \<Rightarrow> nat \<Rightarrow> error + char" where
  "str_index s i = (if i < length s then Inr (s ! i) else Inl IndexError)"

definition py_int :: "char \<Rightarrow> error + int" where
  "py_int c =
     (let n = (of_char c :: nat)
      in if 48 \<le> n \<and> n \<le> 57 then Inr (int n - 48) else Inl ValueError)"

definition dict_get :: "(int \<times> 'v) list \<Rightarrow> int \<Rightarrow> error + 'v" where
  "dict_get d k = (case map_of d k of None \<Rightarrow> Inl (KeyError (PInt k)) | Some v \<Rightarrow> Inr v)"

section \<open>The placement-code decoder\<close>

text \<open>
  \<^verbatim>\<open>_dims_from_grid_loc\<close> (lines 376 to 393). A returned tuple of dimension names is a
  list; falling off the end of the \<^verbatim>\<open>if\<close>/\<^verbatim>\<open>elif\<close> returns \<open>None\<close>. The two horizontal
  tables are two dict literals of the source with the same content.
\<close>

definition dims_from_grid_loc :: "pyval \<Rightarrow> error + string list option" where
  "dims_from_grid_loc grid_loc0 =
     (let grid_loc = py_str grid_loc0 in
      ebind (ebind (str_index grid_loc 0) py_int) (\<lambda>ndim.
      ebind (ebind (str_index grid_loc 1) py_int) (\<lambda>x_loc_key.
      ebind (ebind (str_index grid_loc 2) py_int) (\<lambda>y_loc_key.
      ebind (ebind (str_index grid_loc 3) py_int) (\<lambda>z_loc_key.
      ebind (dict_get [(1, ''XT''), (2, ''XU'')] x_loc_key) (\<lambda>x_loc.
      ebind (dict_get [(1, ''XT''), (2, ''XU'')] y_loc_key) (\<lambda>y_loc.
      ebind (dict_get [(0, ''surface''), (1, ''z_t''), (2, ''z_w'')] z_loc_key) (\<lambda>z_loc.
        if ndim = 3 then
          (if z_loc = ''surface'' then Inr (Some [y_loc, x_loc])
           else Inr (Some [z_loc, y_loc, x_loc]))
        else if ndim = 2 then Inr (Some [z_loc, y_loc, x_loc])
        else Inr None))))))))"





section \<open>Datasets\<close>

text \<open>
  An \<^verbatim>\<open>xarray.Dataset\<close> as the module uses it: an ordered mapping from names to
  variables and a set of coordinate names. A variable has a tuple of dimension names, a
  data buffer (its shape and its elements), attributes and an encoding. Dicts are
  association lists with \<open>AList.update\<close> for \<^verbatim>\<open>d[k] = v\<close> and \<open>AList.delete\<close> for
  \<^verbatim>\<open>d.pop(k, None)\<close>.
\<close>

type_synonym attrs_dict = "(string \<times> pyval) list"

record ndarray =
  shape :: "nat list"
  elems :: "pyval list"

record variable =
  dims :: "string list"
  data :: ndarray
  attrs :: attrs_dict
  encoding :: attrs_dict

record dataset =
  variables :: "(string \<times> variable) list"
  coord_names :: "string list"

text \<open>
  \<^verbatim>\<open>dataset.dims\<close>: the dimension names used by the variables of the dataset, and the
  size a dimension has there.
\<close>

definition ds_dims :: "dataset \<Rightarrow> string list" where
  "ds_dims ds = remdups (concat (map (\<lambda>(name, v). dims v) (variables ds)))"

definition dim_size :: "dataset \<Rightarrow> string \<Rightarrow> nat" where
  "dim_size ds dim =
     (case map_of (concat (map (\<lambda>(name, v). zip (dims v) (shape (data v))) (variables ds))) dim of
        None \<Rightarrow> 0 | Some n \<Rightarrow> n)"

text \<open>
  \<^verbatim>\<open>dataset[name]\<close>. A stored variable is handed out itself, so that writing to its
  \<^verbatim>\<open>.attrs\<close> changes the dataset. For the name of a dimension that has no variable of its
  own, xarray builds a default index \<^verbatim>\<open>0, ..., size - 1\<close> with empty attributes anew at
  every access (this is what \<^verbatim>\<open>len(ds.nlon)\<close> below relies on); any other name raises
  KeyError.
\<close>

definition default_index :: "dataset \<Rightarrow> string \<Rightarrow> variable" where
  "default_index ds dim =
     \<lparr>dims = [dim],
      data = \<lparr>shape = [dim_size ds dim], elems = map (\<lambda>i. PInt (int i)) [0..<dim_size ds dim]\<rparr>,
      attrs = [], encoding = []\<rparr>"

definition getitem :: "dataset \<Rightarrow> string \<Rightarrow> error + variable" where
  "getitem ds name =
     (case map_of (variables ds) name of
        Some v \<Rightarrow> Inr v
      | None \<Rightarrow> if name \<in> set (ds_dims ds) then Inr (default_index ds name)
                else Inl (KeyError (PStr name)))"

text \<open>
  The effect on the dataset of changing \<^verbatim>\<open>dataset[name].attrs\<close> in place by \<open>f\<close>: the
  attributes of the stored variable change; a default index is a temporary object, so
  for a dimension without a variable the dataset stays as it is.
\<close>

definition map_attrs :: "string \<Rightarrow> (attrs_dict \<Rightarrow> attrs_dict) \<Rightarrow> dataset \<Rightarrow> dataset" where
  "map_attrs name f ds =
     ds\<lparr>variables :=
          map (\<lambda>(n, v). if n = name then (n, v\<lparr>attrs := f (attrs v)\<rparr>) else (n, v))
            (variables ds)\<rparr>"

text \<open>Reading \<^verbatim>\<open>dataset[dim].attrs\<close> for a dimension of the dataset.\<close>

definition dim_attrs :: "dataset \<Rightarrow> string \<Rightarrow> attrs_dict" where
  "dim_attrs ds dim = (case getitem ds dim of Inl e \<Rightarrow> [] | Inr v \<Rightarrow> attrs v)"

section \<open>Axis annotation and grid building\<close>

text \<open>
  \<^verbatim>\<open>warnings.warn\<close> is modelled by the list of warnings emitted. The one warning of
  \<^verbatim>\<open>_create_grid\<close> has the text of the list \<^verbatim>\<open>warn_dims\<close> followed by
  \<^verbatim>\<open> are not dimensions and are not added to the grid object.\<close>; it is kept as that list.
\<close>

datatype warning = NotDimensions "string list"

text \<open>
  \<^verbatim>\<open>xgcm.Grid\<close> belongs to another library. \<^verbatim>\<open>_create_grid\<close> calls it and reads
  \<^verbatim>\<open>grid.axes\<close>; the constructor is a parameter \<open>Grid\<close> of the model, which may raise.
\<close>

record grid =
  axes :: "pyval list"

type_synonym coords_dict = "(string \<times> (string \<times> pyval) list) list"

text \<open>Lines 35 to 37: the loop over \<^verbatim>\<open>dataset.dims\<close> that removes the comodo attributes.\<close>

fun clean_comodo :: "string list \<Rightarrow> dataset \<Rightarrow> dataset" where
  "clean_comodo [] dataset = dataset"
| "clean_comodo (dim # rest) dataset =
     clean_comodo rest
       (map_attrs dim (AList.delete ''c_grid_axis_shift'')
          (map_attrs dim (AList.delete ''axis'') dataset))"

text \<open>
  Lines 46 to 52: the body of the inner loop, for one dimension name and its shift under
  the axis label \<open>axis\<close>. The state is the dataset and the list \<^verbatim>\<open>warn_dims\<close>.
\<close>

definition add_comodo_dim ::
  "string \<Rightarrow> string \<Rightarrow> pyval \<Rightarrow> dataset \<times> string list \<Rightarrow> dataset \<times> string list" where
  "add_comodo_dim axis dim shift st =
     (case st of (dataset, warn_dims) \<Rightarrow>
        if dim \<notin> set (ds_dims dataset) then (dataset, warn_dims @ [dim])
        else
          (let dataset1 = map_attrs dim (AList.update ''axis'' (PStr axis)) dataset
           in (if truthy shift
               then map_attrs dim
                      (AList.update ''c_grid_axis_shift'' (PStr (py_str shift))) dataset1
               else dataset1,
               warn_dims)))"

text \<open>Line 45: the loop over the items of \<^verbatim>\<open>coords[axis]\<close>.\<close>

fun add_comodo_dims ::
  "string \<Rightarrow> (string \<times> pyval) list \<Rightarrow> dataset \<times> string list \<Rightarrow> dataset \<times> string list" where
  "add_comodo_dims axis [] st = st"
| "add_comodo_dims axis ((dim, shift) # rest) st =
     add_comodo_dims axis rest (add_comodo_dim axis dim shift st)"

text \<open>Line 44: the loop over the axis labels of \<^verbatim>\<open>coords\<close>.\<close>

fun add_comodo :: "coords_dict \<Rightarrow> dataset \<times> string list \<Rightarrow> dataset \<times> string list" where
  "add_comodo [] st = st"
| "add_comodo ((axis, dims_of_axis) # rest) st =
     add_comodo rest (add_comodo_dims axis dims_of_axis st)"

text \<open>
  Lines 34 to 56, the annotation: the clean-up, then, if \<^verbatim>\<open>coords\<close> is truthy (neither
  \<open>None\<close> nor empty), the two loops, then the warning. It works on the caller's dataset in
  place; the dataset returned here is the state of that object afterwards.
\<close>

definition annotate :: "dataset \<Rightarrow> coords_dict option \<Rightarrow> dataset \<times> warning list" where
  "annotate dataset coords =
     (let dataset1 = clean_comodo (ds_dims dataset) dataset;
          (dataset2, warn_dims) =
            (case coords of
               None \<Rightarrow> (dataset1, [])
             | Some c \<Rightarrow> if c = [] then (dataset1, []) else add_comodo c (dataset1, []))
      in (dataset2, if length warn_dims \<noteq> 0 then [NotDimensions warn_dims] else []))"

text \<open>
  \<^verbatim>\<open>_create_grid\<close> (lines 15 to 65). The result has three parts: the caller's dataset after
  the call, the warnings emitted, and what the call returns (the grid, \<open>None\<close>, or the
  exception that \<^verbatim>\<open>xgcm.Grid\<close> raised).
\<close>

definition create_grid ::
  "(dataset \<Rightarrow> 'p \<Rightarrow> 'f option \<Rightarrow> error + grid) \<Rightarrow> dataset \<Rightarrow> coords_dict option \<Rightarrow> 'p \<Rightarrow>
     'f option \<Rightarrow> dataset \<times> warning list \<times> (error + grid option)" where
  "create_grid Grid dataset coords periodic face_connections =
     (let (dataset1, warns) = annotate dataset coords;
          made =
            (case face_connections of
               None \<Rightarrow> Grid dataset1 periodic None
             | Some fc \<Rightarrow> Grid dataset1 periodic (Some fc))
      in (dataset1, warns,
          ebind made (\<lambda>grid. if length (axes grid) = 0 then Inr None else Inr (Some grid))))"

text \<open>
  The comodo convention that xgcm follows when no axes are passed to it: the axes of a
  grid are the labels found in the \<^verbatim>\<open>axis\<close> attribute of \<^verbatim>\<open>ds[d]\<close> for the dimensions \<open>d\<close>
  of the dataset. \<open>comodo_Grid\<close> is the constructor that does this and nothing else.
\<close>

definition comodo_axes :: "dataset \<Rightarrow> pyval list" where
  "comodo_axes ds = remdups (List.map_filter (\<lambda>d. map_of (dim_attrs ds d) ''axis'') (ds_dims ds))"

definition follows_comodo :: "(dataset \<Rightarrow> 'p \<Rightarrow> 'f option \<Rightarrow> error + grid) \<Rightarrow> bool" where
  "follows_comodo Grid =
     (\<forall>ds periodic fc g. Grid ds periodic fc = Inr g \<longrightarrow> set (axes g) = set (comodo_axes ds))"

definition comodo_Grid :: "dataset \<Rightarrow> 'p \<Rightarrow> 'f option \<Rightarrow> error + grid" where
  "comodo_Grid ds periodic fc = Inr \<lparr>axes = comodo_axes ds\<rparr>"

text \<open>
  The (axis label, dimension name, shift) entries of an axis specification, in the order
  in which the two loops visit them. A dimension coordinate is a dimension of the dataset
  that has a variable of its own name; \<open>coordinate_labels\<close> are the axis labels of the
  specification under which such a dimension is named.
\<close>

definition entries :: "coords_dict option \<Rightarrow> (string \<times> string \<times> pyval) list" where
  "entries coords =
     (case coords of
        None \<Rightarrow> []
      | Some c \<Rightarrow> concat (map (\<lambda>(axis, m). map (\<lambda>(dim, shift). (axis, dim, shift)) m) c))"

definition dimension_coordinate :: "dataset \<Rightarrow> string \<Rightarrow> bool" where
  "dimension_coordinate ds dim =
     (dim \<in> set (ds_dims ds) \<and> dim \<in> set (map fst (variables ds)))"

definition coordinate_labels :: "dataset \<Rightarrow> coords_dict option \<Rightarrow> string list" where
  "coordinate_labels ds coords =
     map fst (filter (\<lambda>(axis, dim, shift). dimension_coordinate ds dim) (entries coords))"

definition absent_dims :: "dataset \<Rightarrow> coords_dict option \<Rightarrow> string list" where
  "absent_dims ds coords =
     filter (\<lambda>dim. dim \<notin> set (ds_dims ds)) (map (\<lambda>(axis, dim, shift). dim) (entries coords))"

text \<open>
  The two loops as one pass over the entries, and the relation between a variable before
  and after a call that may only touch the two comodo attributes.
\<close>

definition run_entries ::
  "(string \<times> string \<times> pyval) list \<Rightarrow> dataset \<times> string list \<Rightarrow> dataset \<times> string list" where
  "run_entries es st = foldl (\<lambda>st (axis, dim, shift). add_comodo_dim axis dim shift st) st es"

definition same_but_comodo :: "variable \<Rightarrow> variable \<Rightarrow> bool" where
  "same_but_comodo v v' =
     (dims v' = dims v \<and> data v' = data v \<and> encoding v' = encoding v
      \<and> (\<forall>k. k \<noteq> ''axis'' \<and> k \<noteq> ''c_grid_axis_shift''
             \<longrightarrow> map_of (attrs v') k = map_of (attrs v) k))"

definition comodo_frame :: "dataset \<Rightarrow> dataset \<Rightarrow> bool" where
  "comodo_frame ds ds' =
     (map fst (variables ds') = map fst (variables ds) \<and> coord_names ds' = coord_names ds
      \<and> ds_dims ds' = ds_dims ds
      \<and> (\<forall>m v. map_of (variables ds) m = Some v \<longrightarrow>
            (\<exists>v'. map_of (variables ds') m = Some v' \<and> same_but_comodo v v'
                  \<and> (m \<notin> set (ds_dims ds) \<longrightarrow> v' = v))))"

section \<open>POP model output\<close>

text \<open>
  The names bound at module level: the four imports (\<^verbatim>\<open>numpy\<close>, \<^verbatim>\<open>warnings\<close>, \<^verbatim>\<open>xgcm\<close>,
  \<^verbatim>\<open>xarray as _xr\<close>) and the functions the module defines. A name that a function reads
  and that is neither a local nor one of these nor a builtin raises NameError when the
  line runs. The POP functions read \<^verbatim>\<open>_xr\<close>, which is bound, and \<^verbatim>\<open>np\<close>.
\<close>

definition module_globals :: "string list" where
  "module_globals =
     [''numpy'', ''warnings'', ''xgcm'', ''_xr'',
      ''_create_grid'', ''_check_instance'', ''_check_oceanspy_axes'',
      ''_check_list_of_string'', ''_check_range'', ''_handle_aliased'', ''_rename_aliased'',
      ''_check_mean_and_int_axes'', ''_rename_coord_attrs'', ''_restore_coord_attrs'',
      ''_add_pop_dims_to_dataset'', ''_dims_from_grid_loc'', ''_label_coord_grid_locs'',
      ''_relabel_pop_dims'', ''_check_part_position'', ''_check_ijk_components'',
      ''_check_native_grid'', ''_check_options'', ''_ax_warning'',
      ''_wrong_axes_error_message'', ''_setter_error_message'']"

definition load_global :: "string \<Rightarrow> error + unit" where
  "load_global name = (if name \<in> set module_globals then Inr () else Inl (NameError name))"

text \<open>
  \<^verbatim>\<open>ds.copy()\<close> makes a new dataset with new variable objects and new attribute dicts
  over the same data buffers: as a value it is the dataset itself, and later writes to the
  copy do not reach the original.
\<close>

definition ds_copy :: "dataset \<Rightarrow> dataset" where
  "ds_copy ds = ds"

text \<open>
  \<^verbatim>\<open>len(ds.name)\<close>: attribute access finds a variable or a dimension of that name (else
  AttributeError); \<^verbatim>\<open>len\<close> is the first entry of the shape (TypeError for a scalar).
\<close>

definition ds_len :: "dataset \<Rightarrow> string \<Rightarrow> error + nat" where
  "ds_len ds name =
     (case getitem ds name of
        Inl e \<Rightarrow> Inl (AttributeError name)
      | Inr v \<Rightarrow> (case shape (data v) of [] \<Rightarrow> Inl TypeError | n # rest \<Rightarrow> Inr n))"

text \<open>
  \<^verbatim>\<open>np.arange(len(ds.name)) + 1\<close> and \<^verbatim>\<open>np.arange(len(ds.name)) + 0.5\<close>. Python looks
  \<^verbatim>\<open>np\<close> up first, then evaluates the argument. The elements are \<open>i + 1\<close> as integers,
  or \<open>i + 0.5\<close> as floats, for \<open>i\<close> from 0.
\<close>

definition plus_one :: "nat \<Rightarrow> pyval" where
  "plus_one i = PInt (int i + 1)"

definition plus_half :: "nat \<Rightarrow> pyval" where
  "plus_half i = PFloat (str_nat i @ ''.5'')"

definition np_arange_len :: "dataset \<Rightarrow> string \<Rightarrow> (nat \<Rightarrow> pyval) \<Rightarrow> error + ndarray" where
  "np_arange_len ds name offset =
     ebind (load_global ''np'') (\<lambda>u.
     ebind (ds_len ds name) (\<lambda>n.
       Inr \<lparr>shape = [n], elems = map offset [0..<n]\<rparr>))"

text \<open>
  \<^verbatim>\<open>_xr.Variable(dims, data, attrs, encoding)\<close>: the number of dimension names must be the
  rank of the data, else ValueError.
\<close>

definition Variable ::
  "string list \<Rightarrow> ndarray \<Rightarrow> attrs_dict \<Rightarrow> attrs_dict \<Rightarrow> error + variable" where
  "Variable ds d a e =
     (if length ds \<noteq> length (shape d) then Inl ValueError
      else Inr \<lparr>dims = ds, data = d, attrs = a, encoding = e\<rparr>)"

text \<open>
  \<^verbatim>\<open>ds[name] = variable\<close>: the variable is stored under the name (replacing one already
  there); ValueError if a dimension then has two different sizes in the dataset. A
  variable whose only dimension is its own name is a coordinate.
\<close>

definition same_sizes :: "dataset \<Rightarrow> bool" where
  "same_sizes ds =
     (let sizes = concat (map (\<lambda>(name, v). zip (dims v) (shape (data v))) (variables ds))
      in list_all (\<lambda>(d, n). map_of sizes d = Some n) sizes)"

definition setitem :: "dataset \<Rightarrow> string \<Rightarrow> variable \<Rightarrow> error + dataset" where
  "setitem ds name v =
     (let ds1 = ds\<lparr>variables := AList.update name v (variables ds),
                    coord_names := (if dims v = [name] then List.insert name (coord_names ds)
                                    else coord_names ds)\<rparr>
      in if same_sizes ds1 then Inr ds1 else Inl ValueError)"

text \<open>\<^verbatim>\<open>ds.set_coords(names)\<close>: every name must be a variable, else ValueError.\<close>

definition set_coords :: "dataset \<Rightarrow> string list \<Rightarrow> error + dataset" where
  "set_coords ds names =
     (if list_all (\<lambda>n. n \<in> set (map fst (variables ds))) names
      then Inr (ds\<lparr>coord_names := List.union (coord_names ds) names\<rparr>)
      else Inl ValueError)"

text \<open>\<^verbatim>\<open>ds[name].attrs.update(d)\<close>: KeyError if the name is neither variable nor dimension.\<close>

definition item_attrs_update :: "dataset \<Rightarrow> string \<Rightarrow> attrs_dict \<Rightarrow> error + dataset" where
  "item_attrs_update ds name d =
     ebind (getitem ds name) (\<lambda>v. Inr (map_attrs name (\<lambda>a. AList.updates (map fst d) (map snd d) a) ds))"

text \<open>
  \<^verbatim>\<open>_add_pop_dims_to_dataset\<close> (lines 359 to 373), statement by statement. Lines 363 and
  364 both assign \<^verbatim>\<open>ds_new['XT']\<close>; lines 368 to 371 index the names \<^verbatim>\<open>Z_t\<close>, \<^verbatim>\<open>Z_w\<close>,
  \<^verbatim>\<open>Z_w_top\<close>, \<^verbatim>\<open>Z_w_bot\<close>.
\<close>

definition add_pop_dims_to_dataset :: "dataset \<Rightarrow> error + dataset" where
  "add_pop_dims_to_dataset ds =
     (let ds_new = ds_copy ds in
      ebind (np_arange_len ds ''nlon'' plus_one) (\<lambda>d.
      ebind (Variable [''XU''] d
               [(''axis'', PStr ''X''), (''c_grid_axis_shift'', PFloat ''0.5'')] []) (\<lambda>v.
      ebind (setitem ds_new ''XU'' v) (\<lambda>ds_new.
      ebind (np_arange_len ds ''nlat'' plus_one) (\<lambda>d.
      ebind (Variable [''YU''] d
               [(''axis'', PStr ''Y''), (''c_grid_axis_shift'', PFloat ''0.5'')] []) (\<lambda>v.
      ebind (setitem ds_new ''YU'' v) (\<lambda>ds_new.
      ebind (np_arange_len ds ''nlon'' plus_half) (\<lambda>d.
      ebind (Variable [''XT''] d [(''axis'', PStr ''X'')] []) (\<lambda>v.
      ebind (setitem ds_new ''XT'' v) (\<lambda>ds_new.
      ebind (np_arange_len ds ''nlat'' plus_half) (\<lambda>d.
      ebind (Variable [''XT''] d [(''axis'', PStr ''Y'')] []) (\<lambda>v.
      ebind (setitem ds_new ''XT'' v) (\<lambda>ds_new.
      ebind (set_coords ds_new [''z_t'', ''z_w'', ''z_w_top'', ''z_w_bot'']) (\<lambda>ds_new.
      ebind (item_attrs_update ds_new ''Z_t'' [(''axis'', PStr ''Z'')]) (\<lambda>ds_new.
      ebind (item_attrs_update ds_new ''Z_w''
               [(''axis'', PStr ''Z''), (''c_grid_axis_shift'', PFloat ''-0.5'')]) (\<lambda>ds_new.
      ebind (item_attrs_update ds_new ''Z_w_top''
               [(''axis'', PStr ''Z''), (''c_grid_axis_shift'', PFloat ''-0.5'')]) (\<lambda>ds_new.
      ebind (item_attrs_update ds_new ''Z_w_bot''
               [(''axis'', PStr ''Z''), (''c_grid_axis_shift'', PFloat ''0.5'')]) (\<lambda>ds_new.
        Inr ds_new))))))))))))))))))"

text \<open>The registry of \<^verbatim>\<open>_label_coord_grid_locs\<close> (lines 413 to 448).\<close>

definition grid_locs :: "(string \<times> string) list" where
  "grid_locs =
    [(''ANGLE'', ''2220''), (''ANGLET'', ''2110''), (''DXT'', ''2110''),
     (''DXU'', ''2220''), (''DYT'', ''2110''), (''DYU'', ''2220''), (''HT'', ''2110''),
     (''HU'', ''2220''), (''HTE'', ''2210''), (''HTN'', ''2120''), (''HUS'', ''2210''),
     (''HUW'', ''2120''), (''KMT'', ''2110''), (''KMU'', ''2220''),
     (''REGION_MASK'', ''2110''), (''TAREA'', ''2110''), (''TLAT'', ''2110''),
     (''TLONG'', ''2110''), (''UAREA'', ''2220''), (''ULAT'', ''2220''),
     (''ULONG'', ''2220''), (''ADVU'', ''3221''), (''ADVV'', ''3221''),
     (''DIA_IMPVF_SALT'', ''3112''), (''DIA_IMPVF_TEMP'', ''3112''),
     (''EVAP_F'', ''2110''), (''GRADX'', ''3221''), (''GRADY'', ''3221''),
     (''HBLT'', ''2110''), (''HMXL'', ''2110''), (''HDIFB_SALT'', ''3112''),
     (''HDIFB_TEMP'', ''3112''), (''HDIFE_SALT'', ''3211''), (''HDIFE_TEMP'', ''3211''),
     (''HDIFN_SALT'', ''3121''), (''HDIFN_TEMP'', ''3121''), (''HDIFFU'', ''3221''),
     (''HDIFFV'', ''3221''), (''KPP_SRC_SALT'', ''3111''), (''KPP_SRC_TEMP'', ''3111''),
     (''LWDN_F'', ''2110''), (''LWUP_F'', ''2110''), (''MELTH_F'', ''2110''),
     (''MELT_F'', ''2110''), (''PD'', ''3111''), (''PREC_F'', ''2110''),
     (''QFLUX'', ''2110''), (''QSW_3D'', ''3111''), (''ROFF_F'', ''2110''),
     (''SALT'', ''3111''), (''SALT_F'', ''2110''), (''SENH_F'', ''2110''),
     (''SFWF'', ''2110''), (''SFWF_WRST'', ''2110''), (''SHF'', ''2110''),
     (''SHF_QSW'', ''2110''), (''SNOW_F'', ''2110''), (''SSH'', ''2110''),
     (''SSH2'', ''2110''), (''SU'', ''2220''), (''SV'', ''2220''), (''TAUX'', ''2220''),
     (''TAUY'', ''2220''), (''TBLT'', ''2110''), (''TEMP'', ''3111''),
     (''TEND_TEMP'', ''3111''), (''TEND_SALT'', ''3111''), (''TMXL'', ''2110''),
     (''UES'', ''3211''), (''UET'', ''3211''), (''UV'', ''3221''), (''UVEL'', ''3221''),
     (''UVEL2'', ''3221''), (''VVEL'', ''3221''), (''VVEL2'', ''3221''),
     (''VDIFFU'', ''3221''), (''VDIFFV'', ''3221''), (''VNS'', ''3121''),
     (''VNT'', ''3121''), (''WTS'', ''3112''), (''WTT'', ''3112''), (''WVEL'', ''3222''),
     (''XBLT'', ''2110''), (''XMXL'', ''2110'')]"

text \<open>
  \<^verbatim>\<open>_label_coord_grid_locs\<close> (lines 449 to 453): on a copy, every variable whose name is a
  key of the registry gets the attribute \<^verbatim>\<open>grid_loc\<close>.
\<close>

fun label_loop :: "string list \<Rightarrow> dataset \<Rightarrow> dataset" where
  "label_loop [] ds_new = ds_new"
| "label_loop (var # rest) ds_new =
     label_loop rest
       (case map_of grid_locs var of
          Some code \<Rightarrow> map_attrs var (AList.update ''grid_loc'' (PStr code)) ds_new
        | None \<Rightarrow> ds_new)"

definition label_coord_grid_locs :: "dataset \<Rightarrow> dataset" where
  "label_coord_grid_locs ds =
     (let ds_new = ds_copy ds in label_loop (map fst (variables ds_new)) ds_new)"

text \<open>
  The loop of \<^verbatim>\<open>_relabel_pop_dims\<close> (lines 462 to 471) over the names of the variables.
  \<^verbatim>\<open>dims_orig[0]\<close> raises IndexError for a variable without dimensions; when the decoder
  returned \<open>None\<close>, building the tuple or the variable raises TypeError.
\<close>

fun relabel_loop :: "string list \<Rightarrow> dataset \<Rightarrow> error + dataset" where
  "relabel_loop [] ds_new = Inr ds_new"
| "relabel_loop (vname # rest) ds_new =
     ebind (getitem ds_new vname) (\<lambda>da.
       case map_of (attrs da) ''grid_loc'' of
         None \<Rightarrow> relabel_loop rest ds_new
       | Some code \<Rightarrow>
           ebind (dims_from_grid_loc code) (\<lambda>new_spatial_dims.
           ebind (case dims da of [] \<Rightarrow> Inl IndexError | d0 # ds \<Rightarrow> Inr d0) (\<lambda>d0.
           ebind (case new_spatial_dims of
                    None \<Rightarrow> Inl TypeError
                  | Some t \<Rightarrow> Inr (if d0 = ''Nt'' then ''Nt'' # t else t)) (\<lambda>dims.
           ebind (Variable dims (data da) (attrs da) (encoding da)) (\<lambda>v.
           ebind (setitem ds_new vname v) (\<lambda>ds_new.
             relabel_loop rest ds_new))))))"

text \<open>\<^verbatim>\<open>_relabel_pop_dims\<close> (lines 456 to 472).\<close>

definition relabel_pop_dims :: "dataset \<Rightarrow> error + dataset" where
  "relabel_pop_dims ds =
     (let ds_new = label_coord_grid_locs ds in
      ebind (add_pop_dims_to_dataset ds_new) (\<lambda>ds_new.
        relabel_loop (map fst (variables ds_new)) ds_new))"

section \<open>Example inputs\<close>

text \<open>
  A small POP dataset: the temperature field \<^verbatim>\<open>TEMP\<close> on 2 levels, 3 rows and 4 columns,
  and the four vertical coordinates. The dimensions \<^verbatim>\<open>nlat\<close> and \<^verbatim>\<open>nlon\<close> have no
  variables of their own, as in POP output.
\<close>

definition pop_example :: dataset where
  "pop_example =
     \<lparr>variables =
        [(''TEMP'', \<lparr>dims = [''z_t'', ''nlat'', ''nlon''],
                     data = \<lparr>shape = [2, 3, 4], elems = replicate 24 (PFloat ''4.0'')\<rparr>,
                     attrs = [(''units'', PStr ''degC'')], encoding = []\<rparr>),
         (''z_t'', \<lparr>dims = [''z_t''],
                    data = \<lparr>shape = [2], elems = [PFloat ''500.0'', PFloat ''1500.0'']\<rparr>,
                    attrs = [], encoding = []\<rparr>),
         (''z_w'', \<lparr>dims = [''z_w''],
                    data = \<lparr>shape = [2], elems = [PFloat ''0.0'', PFloat ''1000.0'']\<rparr>,
                    attrs = [], encoding = []\<rparr>),
         (''z_w_top'', \<lparr>dims = [''z_w_top''],
                        data = \<lparr>shape = [2], elems = [PFloat ''0.0'', PFloat ''1000.0'']\<rparr>,
                        attrs = [], encoding = []\<rparr>),
         (''z_w_bot'', \<lparr>dims = [''z_w_bot''],
                        data = \<lparr>shape = [2], elems = [PFloat ''1000.0'', PFloat ''2000.0'']\<rparr>,
                        attrs = [], encoding = []\<rparr>)],
      coord_names = [''z_t'', ''z_w'', ''z_w_top'', ''z_w_bot'']\<rparr>"

text \<open>A dataset whose only variable, \<^verbatim>\<open>FOO\<close>, is not in the registry.\<close>

definition unregistered_example :: dataset where
  "unregistered_example =
     \<lparr>variables =
        [(''FOO'', \<lparr>dims = [''nlat'', ''nlon''],
                    data = \<lparr>shape = [3, 4], elems = replicate 12 (PInt 7)\<rparr>,
                    attrs = [], encoding = []\<rparr>)],
      coord_names = []\<rparr>"

text \<open>
  A dataset for \<^verbatim>\<open>_create_grid\<close>: the dimension \<^verbatim>\<open>X\<close> has a coordinate variable, which
  carries comodo attributes from an earlier call and a unit; the dimension \<^verbatim>\<open>n\<close> of the
  variable \<^verbatim>\<open>U\<close> has no variable of its own.
\<close>

definition grid_example :: dataset where
  "grid_example =
     \<lparr>variables =
        [(''X'', \<lparr>dims = [''X''],
                  data = \<lparr>shape = [2], elems = [PFloat ''0.5'', PFloat ''1.5'']\<rparr>,
                  attrs = [(''axis'', PStr ''X''), (''c_grid_axis_shift'', PStr ''0.5''),
                           (''units'', PStr ''m'')],
                  encoding = []\<rparr>),
         (''U'', \<lparr>dims = [''n'', ''X''],
                  data = \<lparr>shape = [1, 2], elems = [PInt 3, PInt 4]\<rparr>,
                  attrs = [], encoding = []\<rparr>)],
      coord_names = [''X'']\<rparr>"

section \<open>Theorems about the decoder\<close>






text \<open>
  C3 (as stated, refuted). A code of five characters is not rejected: the decoder reads
  its first four characters and returns their tuple.
\<close>

theorem dims_from_grid_loc_five_characters:
  "length (py_str (PStr ''31110'')) = 5
   \<and> dims_from_grid_loc (PStr ''31110'') = Inr (Some [''z_t'', ''XT'', ''XT''])"
  by (simp add: dims_from_grid_loc_def str_index_def py_int_def dict_get_def ebind_def
      Let_def)

lemma ebind_Inl [simp]: "ebind (Inl e) f = Inl e"
  by (simp add: ebind_def)

lemma ebind_Inr [simp]: "ebind (Inr x) f = f x"
  by (simp add: ebind_def)

lemma py_int_cases: "py_int ch = Inl ValueError \<or> (\<exists>n. py_int ch = Inr n)"
  by (simp add: py_int_def Let_def)

lemma short_code_cases:
  assumes "length s < 4"
  obtains "s = []" | a where "s = [a]" | a b where "s = [a, b]" | a b c where "s = [a, b, c]"
proof (cases s)
  case Nil
  then show thesis by (rule that(1))
next
  case (Cons a s1)
  note s = this
  show thesis
  proof (cases s1)
    case Nil
    with s show thesis by (intro that(2)) simp
  next
    case (Cons b s2)
    note s1 = this
    show thesis
    proof (cases s2)
      case Nil
      with s s1 show thesis by (intro that(3)) simp
    next
      case (Cons c s3)
      with s s1 assms have "s3 = []" by simp
      with s s1 Cons show thesis by (intro that(4)) simp
    qed
  qed
qed

lemma short_code_error:
  assumes "length (py_str c) < 4"
  shows "dims_from_grid_loc c =
     (if \<exists>ch \<in> set (py_str c). py_int ch = Inl ValueError then Inl ValueError
      else Inl IndexError)"
  using assms
proof (cases "py_str c" rule: short_code_cases)
  case 1
  then show ?thesis
    by (simp add: dims_from_grid_loc_def str_index_def)
next
  case (2 a)
  with py_int_cases [of a] show ?thesis
    by (auto simp: dims_from_grid_loc_def str_index_def)
next
  case (3 a b)
  with py_int_cases [of a] py_int_cases [of b] show ?thesis
    by (auto simp: dims_from_grid_loc_def str_index_def)
next
  case (4 a b c)
  with py_int_cases [of a] py_int_cases [of b] py_int_cases [of c] show ?thesis
    by (auto simp: dims_from_grid_loc_def str_index_def)
qed

text \<open>
  C3 (amended). A code whose string form has fewer than four characters never yields a
  tuple: the decoder raises ValueError if one of its characters is not a digit and
  IndexError, at the first missing position, otherwise. A code with more than four
  characters is not rejected: only its first four characters are read, and the result
  is the result of that 4-character prefix.
\<close>

theorem dims_from_grid_loc_wrong_length:
  "(length (py_str c) < 4 \<longrightarrow>
      dims_from_grid_loc c =
        (if \<exists>ch \<in> set (py_str c). py_int ch = Inl ValueError then Inl ValueError
         else Inl IndexError)
      \<and> (dims_from_grid_loc c = Inl IndexError \<or> dims_from_grid_loc c = Inl ValueError))
   \<and> (length s = 4 \<longrightarrow> dims_from_grid_loc (PStr (s @ t)) = dims_from_grid_loc (PStr s))"
proof (intro conjI impI)
  assume short: "length (py_str c) < 4"
  then show exact: "dims_from_grid_loc c =
      (if \<exists>ch \<in> set (py_str c). py_int ch = Inl ValueError then Inl ValueError
       else Inl IndexError)"
    by (rule short_code_error)
  show "dims_from_grid_loc c = Inl IndexError \<or> dims_from_grid_loc c = Inl ValueError"
    unfolding exact by simp
next
  assume len: "length s = 4"
  have "str_index (s @ t) i = str_index s i" if "i < 4" for i
    using that len by (simp add: str_index_def nth_append)
  then show "dims_from_grid_loc (PStr (s @ t)) = dims_from_grid_loc (PStr s)"
    by (simp add: dims_from_grid_loc_def)
qed

theorem dims_from_grid_loc_wrong_length_witness:
  "length (py_str (PInt 31)) < 4 \<and> dims_from_grid_loc (PInt 31) = Inl IndexError
   \<and> length (py_str (PStr ''3a'')) < 4 \<and> dims_from_grid_loc (PStr ''3a'') = Inl ValueError
   \<and> length ''3221'' = 4
   \<and> dims_from_grid_loc (PStr (''3221'' @ ''99'')) = Inr (Some [''z_t'', ''XU'', ''XU''])"
proof -
  have len: "length (py_str (PInt 31)) < 4" and len': "length (py_str (PStr ''3a'')) < 4"
    by (simp_all add: str_nat.simps)
  from dims_from_grid_loc_wrong_length [of "PInt 31"] len
  have short: "dims_from_grid_loc (PInt 31) = Inl IndexError"
    by (simp add: py_int_def str_nat.simps Let_def)
  from dims_from_grid_loc_wrong_length [of "PStr ''3a''"] len'
  have letter: "dims_from_grid_loc (PStr ''3a'') = Inl ValueError"
    by (simp add: py_int_def Let_def)
  have "dims_from_grid_loc (PStr (''3221'' @ ''99'')) = dims_from_grid_loc (PStr ''3221'')"
    using dims_from_grid_loc_wrong_length [of _ "''3221''" "''99''"] by simp
  then have "dims_from_grid_loc (PStr (''3221'' @ ''99'')) = Inr (Some [''z_t'', ''XU'', ''XU''])"
    by (simp add: dims_from_grid_loc_def str_index_def py_int_def dict_get_def Let_def)
  with len len' short letter show ?thesis by simp
qed

lemma decode_other_dimensionality:
  assumes "a \<in> set ''01456789''"
    and "b = CHR ''1'' \<or> b = CHR ''2''"
    and "c = CHR ''1'' \<or> c = CHR ''2''"
    and "d = CHR ''0'' \<or> d = CHR ''1'' \<or> d = CHR ''2''"
  shows "dims_from_grid_loc (PStr [a, b, c, d]) = Inr None"
proof -
  from assms(1) have "a = CHR ''0'' \<or> a = CHR ''1'' \<or> a = CHR ''4'' \<or> a = CHR ''5''
      \<or> a = CHR ''6'' \<or> a = CHR ''7'' \<or> a = CHR ''8'' \<or> a = CHR ''9''"
    by simp
  with assms(2-) show ?thesis
    by (elim disjE; simp add: dims_from_grid_loc_def str_index_def py_int_def dict_get_def
        Let_def)
qed

text \<open>
  C10. A 4-character code with valid staggering digits (X and Y in 1, 2; Z in 0, 1, 2)
  and a leading digit other than 2 and 3 makes the decoder return \<open>None\<close>: no error is
  raised and no tuple is produced.
\<close>

theorem dims_from_grid_loc_other_dimensionality:
  assumes "a \<in> set ''01456789''" and "b \<in> set ''12''" and "c \<in> set ''12''"
    and "d \<in> set ''012''"
  shows "dims_from_grid_loc (PStr [a, b, c, d]) = Inr None"
  using assms by (intro decode_other_dimensionality) auto

theorem dims_from_grid_loc_other_dimensionality_witness:
  "CHR ''4'' \<in> set ''01456789'' \<and> CHR ''1'' \<in> set ''12'' \<and> CHR ''1'' \<in> set ''012''
   \<and> dims_from_grid_loc (PStr ''4111'') = Inr None"
  using dims_from_grid_loc_other_dimensionality [of "CHR ''4''" "CHR ''1''" "CHR ''1''" "CHR ''1''"]
  by simp

section \<open>Lemmas about datasets and the annotation loops\<close>

lemma ds_dims_map_attrs [simp]: "ds_dims (map_attrs n f ds) = ds_dims ds"
proof -
  have eq: "map (\<lambda>(name, v). dims v) (map (\<lambda>(m, v). if m = n then (m, v\<lparr>attrs := f (attrs v)\<rparr>) else (m, v)) xs)
      = map (\<lambda>(name, v). dims v) xs" for xs
    by (induction xs) auto
  show ?thesis
    by (simp add: ds_dims_def map_attrs_def eq del: map_map)
qed

lemma names_map_attrs [simp]: "map fst (variables (map_attrs n f ds)) = map fst (variables ds)"
proof -
  have "map fst (map (\<lambda>(m, v). if m = n then (m, v\<lparr>attrs := f (attrs v)\<rparr>) else (m, v)) xs)
      = map fst xs" for xs
    by (induction xs) auto
  then show ?thesis
    by (simp add: map_attrs_def)
qed

lemma coord_names_map_attrs [simp]: "coord_names (map_attrs n f ds) = coord_names ds"
  by (simp add: map_attrs_def)

lemma map_of_map_attrs:
  "map_of (variables (map_attrs n f ds)) m =
     map_option (\<lambda>v. if m = n then v\<lparr>attrs := f (attrs v)\<rparr> else v) (map_of (variables ds) m)"
proof -
  have "map_of (map (\<lambda>(m, v). if m = n then (m, v\<lparr>attrs := f (attrs v)\<rparr>) else (m, v)) xs) m
      = map_option (\<lambda>v. if m = n then v\<lparr>attrs := f (attrs v)\<rparr> else v) (map_of xs m)" for xs
    by (induction xs) auto
  then show ?thesis
    by (simp add: map_attrs_def)
qed

lemma dim_attrs_eq:
  "dim_attrs ds d = (case map_of (variables ds) d of None \<Rightarrow> [] | Some v \<Rightarrow> attrs v)"
  by (simp add: dim_attrs_def getitem_def default_index_def split: option.splits)

lemma dim_attrs_map_attrs:
  "dim_attrs (map_attrs n f ds) d =
     (if d = n \<and> map_of (variables ds) d \<noteq> None then f (dim_attrs ds d) else dim_attrs ds d)"
  by (auto simp: dim_attrs_eq map_of_map_attrs split: option.splits)

lemma stored_map_attrs [simp]:
  "map_of (variables (map_attrs n f ds)) m = None \<longleftrightarrow> map_of (variables ds) m = None"
  by (simp add: map_of_map_attrs)

lemma ds_dims_clean_comodo [simp]: "ds_dims (clean_comodo l ds) = ds_dims ds"
  by (induction l arbitrary: ds) simp_all

lemma names_clean_comodo [simp]:
  "map fst (variables (clean_comodo l ds)) = map fst (variables ds)"
  by (induction l arbitrary: ds) simp_all

lemma coord_names_clean_comodo [simp]: "coord_names (clean_comodo l ds) = coord_names ds"
  by (induction l arbitrary: ds) simp_all

lemma stored_clean_comodo [simp]:
  "map_of (variables (clean_comodo l ds)) m = None \<longleftrightarrow> map_of (variables ds) m = None"
  by (induction l arbitrary: ds) simp_all

lemma map_of_clean_comodo:
  "map_of (variables (clean_comodo l ds)) m =
     map_option
       (\<lambda>v. if m \<in> set l
            then v\<lparr>attrs := AList.delete ''c_grid_axis_shift'' (AList.delete ''axis'' (attrs v))\<rparr>
            else v)
       (map_of (variables ds) m)"
proof (induction l arbitrary: ds)
  case Nil
  show ?case by (simp add: option.map_ident)
next
  case (Cons d l)
  show ?case
    by (cases "map_of (variables ds) m")
      (auto simp: Cons.IH map_of_map_attrs AList.delete_idem AList.delete_twist)
qed

lemma dim_attrs_clean_comodo:
  "dim_attrs (clean_comodo l ds) d =
     (if d \<in> set l then AList.delete ''c_grid_axis_shift'' (AList.delete ''axis'' (dim_attrs ds d))
      else dim_attrs ds d)"
  by (auto simp: dim_attrs_eq map_of_clean_comodo split: option.splits)

lemma run_entries_Nil [simp]: "run_entries [] st = st"
  by (simp add: run_entries_def)

lemma run_entries_Cons [simp]:
  "run_entries ((axis, dim, shift) # es) st = run_entries es (add_comodo_dim axis dim shift st)"
  by (simp add: run_entries_def)

lemma run_entries_append [simp]:
  "run_entries (es @ es') st = run_entries es' (run_entries es st)"
  by (simp add: run_entries_def)

lemma add_comodo_dims_run:
  "add_comodo_dims axis m st = run_entries (map (\<lambda>(dim, shift). (axis, dim, shift)) m) st"
proof (induction m arbitrary: st)
  case Nil
  show ?case by simp
next
  case (Cons p m)
  obtain dim shift where p: "p = (dim, shift)" by (cases p)
  show ?case by (simp add: p Cons.IH)
qed

lemma entries_Cons:
  "entries (Some ((axis, m) # c)) = map (\<lambda>(dim, shift). (axis, dim, shift)) m @ entries (Some c)"
  by (simp add: entries_def)

lemma add_comodo_run: "add_comodo c st = run_entries (entries (Some c)) st"
proof (induction c arbitrary: st)
  case Nil
  show ?case by (simp add: entries_def)
next
  case (Cons p c)
  obtain axis m where p: "p = (axis, m)" by (cases p)
  show ?case by (simp add: p Cons.IH entries_Cons add_comodo_dims_run)
qed

lemma annotate_run:
  "annotate ds coords =
     (let r = run_entries (entries coords) (clean_comodo (ds_dims ds) ds, [])
      in (fst r, if snd r = [] then [] else [NotDimensions (snd r)]))"
proof (cases coords)
  case None
  then show ?thesis by (simp add: annotate_def entries_def)
next
  case (Some c)
  then show ?thesis
    by (cases "c = []") (auto simp: annotate_def add_comodo_run entries_def Let_def split: prod.splits)
qed

lemma fst_create_grid: "fst (create_grid Grid ds coords periodic fc) = fst (annotate ds coords)"
  by (simp add: create_grid_def Let_def split: prod.splits)

lemma warnings_create_grid:
  "fst (snd (create_grid Grid ds coords periodic fc)) = snd (annotate ds coords)"
  by (simp add: create_grid_def Let_def split: prod.splits)

lemma ds_dims_step [simp]: "ds_dims (fst (add_comodo_dim a d s st)) = ds_dims (fst st)"
  by (cases st) (simp add: add_comodo_dim_def Let_def)

lemma names_step [simp]:
  "map fst (variables (fst (add_comodo_dim a d s st))) = map fst (variables (fst st))"
  by (cases st) (simp add: add_comodo_dim_def Let_def)

lemma coord_names_step [simp]:
  "coord_names (fst (add_comodo_dim a d s st)) = coord_names (fst st)"
  by (cases st) (simp add: add_comodo_dim_def Let_def)

lemma stored_step [simp]:
  "map_of (variables (fst (add_comodo_dim a d s st))) m = None
     \<longleftrightarrow> map_of (variables (fst st)) m = None"
  by (cases st) (simp add: add_comodo_dim_def Let_def)

lemma snd_step:
  "snd (add_comodo_dim a d s st) = snd st @ (if d \<notin> set (ds_dims (fst st)) then [d] else [])"
  by (cases st) (simp add: add_comodo_dim_def Let_def)

lemma dim_attrs_step:
  "dim_attrs (fst (add_comodo_dim a d s st)) x =
     (if x = d \<and> d \<in> set (ds_dims (fst st)) \<and> map_of (variables (fst st)) x \<noteq> None
      then (if truthy s
            then AList.update ''c_grid_axis_shift'' (PStr (py_str s))
                   (AList.update ''axis'' (PStr a) (dim_attrs (fst st) x))
            else AList.update ''axis'' (PStr a) (dim_attrs (fst st) x))
      else dim_attrs (fst st) x)"
  by (cases st) (auto simp: add_comodo_dim_def Let_def dim_attrs_map_attrs)

lemma ds_dims_run [simp]: "ds_dims (fst (run_entries es st)) = ds_dims (fst st)"
proof (induction es arbitrary: st)
  case Nil
  show ?case by simp
next
  case (Cons e es)
  obtain a d s where e: "e = (a, d, s)" by (cases e)
  show ?case by (simp add: e Cons.IH)
qed

lemma names_run [simp]:
  "map fst (variables (fst (run_entries es st))) = map fst (variables (fst st))"
proof (induction es arbitrary: st)
  case Nil
  show ?case by simp
next
  case (Cons e es)
  obtain a d s where e: "e = (a, d, s)" by (cases e)
  show ?case by (simp add: e Cons.IH)
qed

lemma coord_names_run [simp]: "coord_names (fst (run_entries es st)) = coord_names (fst st)"
proof (induction es arbitrary: st)
  case Nil
  show ?case by simp
next
  case (Cons e es)
  obtain a d s where e: "e = (a, d, s)" by (cases e)
  show ?case by (simp add: e Cons.IH)
qed

lemma stored_run [simp]:
  "map_of (variables (fst (run_entries es st))) m = None \<longleftrightarrow> map_of (variables (fst st)) m = None"
proof (induction es arbitrary: st)
  case Nil
  show ?case by simp
next
  case (Cons e es)
  obtain a d s where e: "e = (a, d, s)" by (cases e)
  show ?case by (simp add: e Cons.IH)
qed

lemma snd_run:
  "snd (run_entries es st) =
     snd st @ filter (\<lambda>d. d \<notin> set (ds_dims (fst st))) (map (\<lambda>(a, d, s). d) es)"
proof (induction es arbitrary: st)
  case Nil
  show ?case by simp
next
  case (Cons e es)
  obtain a d s where e: "e = (a, d, s)" by (cases e)
  show ?case by (simp add: e Cons.IH snd_step)
qed

lemma axis_run:
  assumes "x \<in> set (ds_dims (fst st))" and "map_of (variables (fst st)) x \<noteq> None"
  shows "map_of (dim_attrs (fst (run_entries es st)) x) ''axis'' =
     (case filter (\<lambda>(a, d, s). d = x) es of
        [] \<Rightarrow> map_of (dim_attrs (fst st) x) ''axis''
      | e # l \<Rightarrow> Some (PStr (fst (last (e # l)))))"
  using assms
proof (induction es arbitrary: st)
  case Nil
  show ?case by simp
next
  case (Cons e es)
  obtain a d s where e: "e = (a, d, s)" by (cases e)
  have pre: "x \<in> set (ds_dims (fst (add_comodo_dim a d s st)))"
    "map_of (variables (fst (add_comodo_dim a d s st))) x \<noteq> None"
    using Cons.prems by simp_all
  show ?case
    unfolding e using Cons.prems
    by (simp add: Cons.IH [OF pre] dim_attrs_step update_conv' split: list.splits)
qed

lemma shift_run:
  assumes "x \<in> set (ds_dims (fst st))" and "map_of (variables (fst st)) x \<noteq> None"
  shows "map_of (dim_attrs (fst (run_entries es st)) x) ''c_grid_axis_shift'' =
     (case filter (\<lambda>(a, d, s). d = x \<and> truthy s) es of
        [] \<Rightarrow> map_of (dim_attrs (fst st) x) ''c_grid_axis_shift''
      | e # l \<Rightarrow> Some (PStr (py_str (snd (snd (last (e # l)))))))"
  using assms
proof (induction es arbitrary: st)
  case Nil
  show ?case by simp
next
  case (Cons e es)
  obtain a d s where e: "e = (a, d, s)" by (cases e)
  have pre: "x \<in> set (ds_dims (fst (add_comodo_dim a d s st)))"
    "map_of (variables (fst (add_comodo_dim a d s st))) x \<noteq> None"
    using Cons.prems by simp_all
  show ?case
    unfolding e using Cons.prems
    by (simp add: Cons.IH [OF pre] dim_attrs_step update_conv' split: list.splits)
qed

lemma same_but_comodo_refl [simp]: "same_but_comodo v v"
  by (simp add: same_but_comodo_def)

lemma same_but_comodo_trans:
  "same_but_comodo u v \<Longrightarrow> same_but_comodo v w \<Longrightarrow> same_but_comodo u w"
  by (simp add: same_but_comodo_def)

lemma comodo_frame_refl [simp]: "comodo_frame ds ds"
  by (simp add: comodo_frame_def)

lemma comodo_frame_trans:
  assumes "comodo_frame a b" and "comodo_frame b c"
  shows "comodo_frame a c"
  unfolding comodo_frame_def
proof (intro conjI allI impI)
  fix m v
  assume "map_of (variables a) m = Some v"
  with assms(1) obtain v' where v': "map_of (variables b) m = Some v'"
    "same_but_comodo v v'" "m \<notin> set (ds_dims a) \<longrightarrow> v' = v"
    unfolding comodo_frame_def by blast
  with assms(2) obtain v'' where v'': "map_of (variables c) m = Some v''"
    "same_but_comodo v' v''" "m \<notin> set (ds_dims b) \<longrightarrow> v'' = v'"
    unfolding comodo_frame_def by blast
  from assms(1) have "ds_dims b = ds_dims a"
    by (simp add: comodo_frame_def)
  with v' v'' show "\<exists>w. map_of (variables c) m = Some w \<and> same_but_comodo v w
      \<and> (m \<notin> set (ds_dims a) \<longrightarrow> w = v)"
    by (auto intro: same_but_comodo_trans)
qed (use assms in \<open>simp_all add: comodo_frame_def\<close>)

lemma comodo_frame_map_attrs:
  assumes "n \<in> set (ds_dims ds)"
    and "\<And>a k. k \<noteq> ''axis'' \<Longrightarrow> k \<noteq> ''c_grid_axis_shift'' \<Longrightarrow> map_of (f a) k = map_of a k"
  shows "comodo_frame ds (map_attrs n f ds)"
  using assms by (auto simp: comodo_frame_def map_of_map_attrs same_but_comodo_def)

lemma comodo_frame_delete:
  assumes "n \<in> set (ds_dims ds)" and "key = ''axis'' \<or> key = ''c_grid_axis_shift''"
  shows "comodo_frame ds (map_attrs n (AList.delete key) ds)"
  using assms by (intro comodo_frame_map_attrs) (auto simp: delete_conv')

lemma comodo_frame_update:
  assumes "n \<in> set (ds_dims ds)" and "key = ''axis'' \<or> key = ''c_grid_axis_shift''"
  shows "comodo_frame ds (map_attrs n (AList.update key x) ds)"
  using assms by (intro comodo_frame_map_attrs) (auto simp: update_conv')

lemma comodo_frame_clean_comodo:
  assumes "set l \<subseteq> set (ds_dims ds)"
  shows "comodo_frame ds (clean_comodo l ds)"
  using assms
proof (induction l arbitrary: ds)
  case Nil
  show ?case by simp
next
  case (Cons d l)
  let ?ds1 = "map_attrs d (AList.delete ''axis'') ds"
  let ?ds2 = "map_attrs d (AList.delete ''c_grid_axis_shift'') ?ds1"
  have d: "d \<in> set (ds_dims ds)" and l: "set l \<subseteq> set (ds_dims ?ds2)"
    using Cons.prems by simp_all
  have "comodo_frame ds ?ds1"
    using d by (intro comodo_frame_delete) simp_all
  moreover have "comodo_frame ?ds1 ?ds2"
    using d by (intro comodo_frame_delete) simp_all
  moreover have "comodo_frame ?ds2 (clean_comodo l ?ds2)"
    using l by (rule Cons.IH)
  ultimately show ?case
    by (auto intro: comodo_frame_trans)
qed

lemma comodo_frame_step: "comodo_frame (fst st) (fst (add_comodo_dim a d s st))"
proof (cases st)
  case (Pair ds w)
  show ?thesis
  proof (cases "d \<in> set (ds_dims ds)")
    case False
    then show ?thesis by (simp add: Pair add_comodo_dim_def)
  next
    case True
    let ?ds1 = "map_attrs d (AList.update ''axis'' (PStr a)) ds"
    have 1: "comodo_frame ds ?ds1"
      using True by (intro comodo_frame_update) simp_all
    have 2: "comodo_frame ?ds1
        (map_attrs d (AList.update ''c_grid_axis_shift'' (PStr (py_str s))) ?ds1)"
      using True by (intro comodo_frame_update) simp_all
    from 1 2 True show ?thesis
      by (auto simp: Pair add_comodo_dim_def Let_def intro: comodo_frame_trans)
  qed
qed

lemma comodo_frame_run: "comodo_frame (fst st) (fst (run_entries es st))"
proof (induction es arbitrary: st)
  case Nil
  show ?case by simp
next
  case (Cons e es)
  obtain a d s where e: "e = (a, d, s)" by (cases e)
  have "comodo_frame (fst st) (fst (add_comodo_dim a d s st))"
    by (rule comodo_frame_step)
  moreover have "comodo_frame (fst (add_comodo_dim a d s st))
      (fst (run_entries es (add_comodo_dim a d s st)))"
    by (rule Cons.IH)
  ultimately show ?case
    unfolding e by (auto intro: comodo_frame_trans)
qed

lemma comodo_frame_annotate: "comodo_frame ds (fst (annotate ds coords))"
proof -
  have "comodo_frame ds (clean_comodo (ds_dims ds) ds)"
    by (rule comodo_frame_clean_comodo) simp
  moreover have "comodo_frame (clean_comodo (ds_dims ds) ds)
      (fst (run_entries (entries coords) (clean_comodo (ds_dims ds) ds, [])))"
    using comodo_frame_run [of "(clean_comodo (ds_dims ds) ds, [])"] by simp
  ultimately show ?thesis
    by (auto simp: annotate_run Let_def intro: comodo_frame_trans)
qed

lemma dim_attrs_unstored: "map_of (variables ds) d = None \<Longrightarrow> dim_attrs ds d = []"
  by (simp add: dim_attrs_eq)

lemma clean_attrs_None:
  assumes "d \<in> set l"
  shows "map_of (dim_attrs (clean_comodo l ds) d) ''axis'' = None"
    and "map_of (dim_attrs (clean_comodo l ds) d) ''c_grid_axis_shift'' = None"
  using assms by (simp_all add: dim_attrs_clean_comodo delete_conv')

lemma axis_after_annotate:
  assumes "d \<in> set (ds_dims ds)"
  shows "map_of (dim_attrs (fst (annotate ds coords)) d) ''axis'' =
     (if map_of (variables ds) d = None then None
      else case filter (\<lambda>(a, x, s). x = d) (entries coords) of
             [] \<Rightarrow> None
           | e # l \<Rightarrow> Some (PStr (fst (last (e # l)))))"
proof (cases "map_of (variables ds) d = None")
  case True
  then have "map_of (variables (fst (run_entries (entries coords)
      (clean_comodo (ds_dims ds) ds, [])))) d = None"
    by simp
  then have "dim_attrs (fst (run_entries (entries coords)
      (clean_comodo (ds_dims ds) ds, []))) d = []"
    by (rule dim_attrs_unstored)
  with True show ?thesis
    by (simp add: annotate_run Let_def)
next
  case False
  let ?st = "(clean_comodo (ds_dims ds) ds, [] :: string list)"
  have "d \<in> set (ds_dims (fst ?st))" and "map_of (variables (fst ?st)) d \<noteq> None"
    using assms False by simp_all
  note run = axis_run [OF this, of "entries coords", unfolded fst_conv]
  have "map_of (dim_attrs (clean_comodo (ds_dims ds) ds) d) ''axis'' = None"
    using assms by (rule clean_attrs_None)
  with run False show ?thesis
    by (simp add: annotate_run Let_def split: list.splits)
qed

lemma shift_after_annotate:
  assumes "d \<in> set (ds_dims ds)"
  shows "map_of (dim_attrs (fst (annotate ds coords)) d) ''c_grid_axis_shift'' =
     (if map_of (variables ds) d = None then None
      else case filter (\<lambda>(a, x, s). x = d \<and> truthy s) (entries coords) of
             [] \<Rightarrow> None
           | e # l \<Rightarrow> Some (PStr (py_str (snd (snd (last (e # l)))))))"
proof (cases "map_of (variables ds) d = None")
  case True
  then have "map_of (variables (fst (run_entries (entries coords)
      (clean_comodo (ds_dims ds) ds, [])))) d = None"
    by simp
  then have "dim_attrs (fst (run_entries (entries coords)
      (clean_comodo (ds_dims ds) ds, []))) d = []"
    by (rule dim_attrs_unstored)
  with True show ?thesis
    by (simp add: annotate_run Let_def)
next
  case False
  let ?st = "(clean_comodo (ds_dims ds) ds, [] :: string list)"
  have "d \<in> set (ds_dims (fst ?st))" and "map_of (variables (fst ?st)) d \<noteq> None"
    using assms False by simp_all
  note run = shift_run [OF this, of "entries coords", unfolded fst_conv]
  have "map_of (dim_attrs (clean_comodo (ds_dims ds) ds) d) ''c_grid_axis_shift'' = None"
    using assms by (rule clean_attrs_None)
  with run False show ?thesis
    by (simp add: annotate_run Let_def split: list.splits)
qed

lemma warnings_annotate:
  "snd (annotate ds coords) =
     (if absent_dims ds coords = [] then [] else [NotDimensions (absent_dims ds coords)])"
  by (simp add: annotate_run Let_def snd_run absent_dims_def)

lemma set_entries:
  "(axis, dim, shift) \<in> set (entries (Some c))
     \<longleftrightarrow> (\<exists>m. (axis, m) \<in> set c \<and> (dim, shift) \<in> set m)"
  by (auto simp: entries_def)

section \<open>Theorems about axis annotation and grid building\<close>

lemma stored_iff: "map_of (variables ds) d \<noteq> None \<longleftrightarrow> d \<in> set (map fst (variables ds))"
  by (simp add: map_of_eq_None_iff)

lemma set_absent_dims:
  "set (absent_dims ds (Some c)) =
     {dim. \<exists>axis m shift. (axis, m) \<in> set c \<and> (dim, shift) \<in> set m \<and> dim \<notin> set (ds_dims ds)}"
proof -
  have "set (map (\<lambda>(axis, dim, shift). dim) (entries (Some c))) =
      {dim. \<exists>axis m shift. (axis, m) \<in> set c \<and> (dim, shift) \<in> set m}"
    by (force simp: entries_def)
  then show ?thesis
    unfolding absent_dims_def set_filter by blast
qed

lemma create_grid_parts:
  assumes "create_grid Grid ds coords periodic fc = (ds', ws, res)"
  shows "ds' = fst (annotate ds coords)" and "ws = snd (annotate ds coords)"
    and "res = ebind (Grid ds' periodic fc)
           (\<lambda>grid. if length (axes grid) = 0 then Inr None else Inr (Some grid))"
  using assms by (auto simp: create_grid_def Let_def split: prod.splits option.splits)

text \<open>
  C6. When every dimension name of the axis specification is a dimension of the dataset,
  \<^verbatim>\<open>_create_grid\<close> emits no warning. When at least one is not, the annotation raises
  nothing and emits exactly one warning, whose list holds all and only the names that are
  not dimensions of the dataset.
\<close>

theorem create_grid_warning:
  assumes "create_grid Grid ds (Some c) periodic fc = (ds', ws, res)"
  shows "((\<forall>(axis, m) \<in> set c. \<forall>(dim, shift) \<in> set m. dim \<in> set (ds_dims ds)) \<longrightarrow> ws = [])
    \<and> ((\<exists>(axis, m) \<in> set c. \<exists>(dim, shift) \<in> set m. dim \<notin> set (ds_dims ds)) \<longrightarrow>
         (\<exists>warn_dims. ws = [NotDimensions warn_dims] \<and>
           set warn_dims =
             {dim. \<exists>axis m shift. (axis, m) \<in> set c \<and> (dim, shift) \<in> set m
                \<and> dim \<notin> set (ds_dims ds)}))
    \<and> (ds', ws) = annotate ds (Some c)"
proof (intro conjI impI)
  from assms have ws: "ws = snd (annotate ds (Some c))" and ds': "ds' = fst (annotate ds (Some c))"
    by (rule create_grid_parts)+
  show "(ds', ws) = annotate ds (Some c)"
    by (simp add: ws ds')
next
  from assms have ws: "ws = snd (annotate ds (Some c))"
    by (rule create_grid_parts)
  assume "\<forall>(axis, m) \<in> set c. \<forall>(dim, shift) \<in> set m. dim \<in> set (ds_dims ds)"
  then have "set (absent_dims ds (Some c)) = {}"
    unfolding set_absent_dims by blast
  then show "ws = []"
    by (simp add: ws warnings_annotate)
next
  from assms have ws: "ws = snd (annotate ds (Some c))"
    by (rule create_grid_parts)
  assume "\<exists>(axis, m) \<in> set c. \<exists>(dim, shift) \<in> set m. dim \<notin> set (ds_dims ds)"
  then have "set (absent_dims ds (Some c)) \<noteq> {}"
    unfolding set_absent_dims by blast
  then have "ws = [NotDimensions (absent_dims ds (Some c))]"
    by (auto simp: ws warnings_annotate)
  then show "\<exists>warn_dims. ws = [NotDimensions warn_dims] \<and>
         set warn_dims =
           {dim. \<exists>axis m shift. (axis, m) \<in> set c \<and> (dim, shift) \<in> set m
              \<and> dim \<notin> set (ds_dims ds)}"
    using set_absent_dims by blast
qed

lemmas eval_defs = create_grid_def annotate_def add_comodo_dim_def map_attrs_def ds_dims_def
  dim_attrs_def getitem_def default_index_def comodo_Grid_def comodo_axes_def grid_example_def
  List.map_filter_def Let_def ebind_def

theorem create_grid_warning_witness:
  "fst (snd (create_grid comodo_Grid grid_example (Some [(''X'', [(''X'', PFloat ''0.5'')])])
        ([] :: string list) (None :: unit option))) = []
   \<and> (\<exists>(axis, m) \<in> set [(''X'', [(''X'', PNone), (''q'', PNone)]), (''Y'', [(''r'', PNone)])].
        \<exists>(dim, shift) \<in> set m. dim \<notin> set (ds_dims grid_example))
   \<and> fst (snd (create_grid comodo_Grid grid_example
        (Some [(''X'', [(''X'', PNone), (''q'', PNone)]), (''Y'', [(''r'', PNone)])])
        ([] :: string list) (None :: unit option))) = [NotDimensions [''q'', ''r'']]"
proof -
  let ?all = "[(''X'', [(''X'', PFloat ''0.5'')])]"
  let ?some = "[(''X'', [(''X'', PNone), (''q'', PNone)]), (''Y'', [(''r'', PNone)])]"
  let ?r1 = "create_grid comodo_Grid grid_example (Some ?all) ([] :: string list) (None :: unit option)"
  let ?r2 = "create_grid comodo_Grid grid_example (Some ?some) ([] :: string list) (None :: unit option)"
  have present: "\<forall>(axis, m) \<in> set ?all. \<forall>(dim, shift) \<in> set m. dim \<in> set (ds_dims grid_example)"
    by (simp add: ds_dims_def grid_example_def)
  have absent: "\<exists>(axis, m) \<in> set ?some. \<exists>(dim, shift) \<in> set m. dim \<notin> set (ds_dims grid_example)"
    by (simp add: ds_dims_def grid_example_def)
  have call1: "?r1 = (fst ?r1, fst (snd ?r1), snd (snd ?r1))"
    and call2: "?r2 = (fst ?r2, fst (snd ?r2), snd (snd ?r2))"
    by simp_all
  have "fst (snd ?r1) = []"
    using create_grid_warning [OF call1] present by blast
  moreover from create_grid_warning [OF call2] absent
  obtain warn_dims where one: "fst (snd ?r2) = [NotDimensions warn_dims]"
    by auto
  moreover have "fst (snd ?r2) = [NotDimensions [''q'', ''r'']]"
    by (simp add: eval_defs)
  ultimately show ?thesis
    using absent by simp
qed

text \<open>
  C5 (as stated, refuted). With the specification \<^verbatim>\<open>{'X': {'X': 0, 'n': None}}\<close> on the
  example dataset, \<^verbatim>\<open>X\<close> is a dimension and its shift 0 is not \<open>None\<close>, yet no
  \<^verbatim>\<open>c_grid_axis_shift\<close> is written (the claim expects the string 0); and \<^verbatim>\<open>n\<close> is a
  dimension too, yet reading its attributes after the call shows no \<^verbatim>\<open>axis\<close>.
\<close>

theorem create_grid_zero_shift:
  "''X'' \<in> set (ds_dims grid_example) \<and> PInt 0 \<noteq> PNone \<and> py_str (PInt 0) = ''0''
   \<and> map_of (dim_attrs (fst (create_grid comodo_Grid grid_example
          (Some [(''X'', [(''X'', PInt 0), (''n'', PNone)])]) ([] :: string list)
          (None :: unit option))) ''X'') ''c_grid_axis_shift'' = None
   \<and> ''n'' \<in> set (ds_dims grid_example)
   \<and> map_of (dim_attrs (fst (create_grid comodo_Grid grid_example
          (Some [(''X'', [(''X'', PInt 0), (''n'', PNone)])]) ([] :: string list)
          (None :: unit option))) ''n'') ''axis'' = None"
  by (simp add: eval_defs str_nat.simps)

lemma case_nonempty:
  "xs \<noteq> [] \<Longrightarrow> (case xs of [] \<Rightarrow> a | e # l \<Rightarrow> f (last (e # l))) = f (last xs)"
  by (cases xs) simp_all

text \<open>
  C5 (amended). Take a (dimension name, shift) pair under an axis label that is the last
  pair of the specification naming that dimension, where the name is a dimension of the
  dataset that has a coordinate variable. After \<^verbatim>\<open>_create_grid\<close> the \<^verbatim>\<open>axis\<close> attribute of
  the dimension is the axis label. Its \<^verbatim>\<open>c_grid_axis_shift\<close> attribute is the string form
  of the shift if the shift is truthy (neither \<open>None\<close> nor zero); otherwise the pair writes
  no shift: the attribute is the one left by the last earlier pair naming the dimension
  with a truthy shift, and is absent if there is none (as when the dimension is named
  once).
\<close>

theorem create_grid_sets_axis_and_shift:
  assumes "create_grid Grid ds (Some c) periodic fc = (ds', ws, res)"
    and "dimension_coordinate ds dim"
    and "filter (\<lambda>(a, d, s). d = dim) (entries (Some c)) = earlier @ [(axis, dim, shift)]"
  shows "map_of (dim_attrs ds' dim) ''axis'' = Some (PStr axis)
    \<and> map_of (dim_attrs ds' dim) ''c_grid_axis_shift'' =
         (if truthy shift then Some (PStr (py_str shift))
          else case filter (\<lambda>(a, d, s). truthy s) earlier of
                 [] \<Rightarrow> None
               | e # l \<Rightarrow> Some (PStr (py_str (snd (snd (last (e # l)))))))"
proof (intro conjI)
  let ?named = "filter (\<lambda>(a, d, s). d = dim) (entries (Some c))"
  let ?shifted = "filter (\<lambda>(a, d, s). d = dim \<and> truthy s) (entries (Some c))"
  from assms(1) have ds': "ds' = fst (annotate ds (Some c))"
    by (rule create_grid_parts)
  from assms(2) have dim: "dim \<in> set (ds_dims ds)" and stored: "map_of (variables ds) dim \<noteq> None"
    by (auto simp: dimension_coordinate_def map_of_eq_None_iff)
  have "?named \<noteq> []" and "last ?named = (axis, dim, shift)"
    by (simp_all add: assms(3))
  with axis_after_annotate [OF dim, of "Some c"] stored
  show "map_of (dim_attrs ds' dim) ''axis'' = Some (PStr axis)"
    by (simp add: ds' case_nonempty [where f = "\<lambda>l. Some (PStr (fst l))"])
  have "?shifted = filter (\<lambda>(a, d, s). truthy s) ?named"
    by (simp add: case_prod_unfold conj_commute)
  then have shifted: "?shifted = filter (\<lambda>(a, d, s). truthy s) earlier
      @ (if truthy shift then [(axis, dim, shift)] else [])"
    by (simp add: assms(3))
  show "map_of (dim_attrs ds' dim) ''c_grid_axis_shift'' =
      (if truthy shift then Some (PStr (py_str shift))
       else case filter (\<lambda>(a, d, s). truthy s) earlier of
              [] \<Rightarrow> None
            | e # l \<Rightarrow> Some (PStr (py_str (snd (snd (last (e # l)))))))"
  proof (cases "truthy shift")
    case True
    with shifted have "?shifted \<noteq> []" and "last ?shifted = (axis, dim, shift)"
      by simp_all
    with shift_after_annotate [OF dim, of "Some c"] stored True show ?thesis
      by (simp add: ds' case_nonempty [where f = "\<lambda>l. Some (PStr (py_str (snd (snd l))))"])
  next
    case False
    with shifted have "?shifted = filter (\<lambda>(a, d, s). truthy s) earlier"
      by simp
    with shift_after_annotate [OF dim, of "Some c"] stored False show ?thesis
      by (simp add: ds')
  qed
qed

theorem create_grid_sets_axis_and_shift_witness:
  "dimension_coordinate grid_example ''X''
   \<and> map_of (dim_attrs (fst (create_grid comodo_Grid grid_example
          (Some [(''Y'', [(''q'', PNone)]), (''X'', [(''X'', PFloat ''-0.5'')])])
          ([] :: string list) (None :: unit option))) ''X'') ''axis'' = Some (PStr ''X'')
   \<and> map_of (dim_attrs (fst (create_grid comodo_Grid grid_example
          (Some [(''Y'', [(''q'', PNone)]), (''X'', [(''X'', PFloat ''-0.5'')])])
          ([] :: string list) (None :: unit option))) ''X'') ''c_grid_axis_shift''
       = Some (PStr ''-0.5'')"
proof -
  let ?c = "[(''Y'', [(''q'', PNone)]), (''X'', [(''X'', PFloat ''-0.5'')])]"
  let ?r = "create_grid comodo_Grid grid_example (Some ?c) ([] :: string list) (None :: unit option)"
  have call: "?r = (fst ?r, fst (snd ?r), snd (snd ?r))"
    by simp
  have coord: "dimension_coordinate grid_example ''X''"
    by (simp add: dimension_coordinate_def ds_dims_def grid_example_def)
  have last: "filter (\<lambda>(a, d, s). d = ''X'') (entries (Some ?c))
      = [] @ [(''X'', ''X'', PFloat ''-0.5'')]"
    by (simp add: entries_def)
  from create_grid_sets_axis_and_shift [OF call coord last] coord show ?thesis
    by simp
qed

lemma unnamed_iff:
  "d \<notin> set (map (\<lambda>(a, x, s). x) es) \<longleftrightarrow> filter (\<lambda>(a, x, s). x = d) es = []"
  by (induction es) auto

text \<open>
  C4 (as stated, refuted). \<^verbatim>\<open>_create_grid\<close> works on the caller's dataset in place. On the
  example dataset, whose dimension \<^verbatim>\<open>X\<close> carries \<^verbatim>\<open>axis\<close> and \<^verbatim>\<open>c_grid_axis_shift\<close> from
  before, a call without axis specification leaves only the unit in the attributes of
  \<^verbatim>\<open>X\<close>; and what the call returns is \<open>None\<close>, not a dataset.
\<close>

theorem create_grid_removes_attributes:
  "dim_attrs grid_example ''X'' =
     [(''axis'', PStr ''X''), (''c_grid_axis_shift'', PStr ''0.5''), (''units'', PStr ''m'')]
   \<and> dim_attrs (fst (create_grid comodo_Grid grid_example None ([] :: string list)
          (None :: unit option))) ''X'' = [(''units'', PStr ''m'')]
   \<and> snd (snd (create_grid comodo_Grid grid_example None ([] :: string list)
          (None :: unit option))) = Inr None"
  by (simp add: eval_defs)

text \<open>
  C4 (amended). \<^verbatim>\<open>_create_grid\<close> does not return a new dataset: it returns the grid or
  \<open>None\<close> and rewrites the caller's dataset in place. After the call the dataset has the
  same variable names and coordinate names; every variable has the dimensions, data
  buffer, encoding and attributes it had, except for the attributes \<^verbatim>\<open>axis\<close> and
  \<^verbatim>\<open>c_grid_axis_shift\<close> of variables named like a dimension; a variable that is not named
  like a dimension is unchanged; and a dimension that the axis specification does not
  name has neither of the two attributes left.
\<close>

theorem create_grid_in_place:
  assumes "create_grid Grid ds coords periodic fc = (ds', ws, res)"
  shows "map fst (variables ds') = map fst (variables ds)
    \<and> coord_names ds' = coord_names ds
    \<and> (map_of (variables ds) name = Some v \<longrightarrow>
         (\<exists>v'. map_of (variables ds') name = Some v' \<and> dims v' = dims v \<and> data v' = data v
             \<and> encoding v' = encoding v
             \<and> (\<forall>k. k \<noteq> ''axis'' \<and> k \<noteq> ''c_grid_axis_shift''
                    \<longrightarrow> map_of (attrs v') k = map_of (attrs v) k)
             \<and> (name \<notin> set (ds_dims ds) \<longrightarrow> v' = v)))
    \<and> (dim \<in> set (ds_dims ds) \<and> dim \<notin> set (map (\<lambda>(a, d, s). d) (entries coords)) \<longrightarrow>
           map_of (dim_attrs ds' dim) ''axis'' = None
           \<and> map_of (dim_attrs ds' dim) ''c_grid_axis_shift'' = None)"
proof -
  from assms have ds': "ds' = fst (annotate ds coords)"
    by (rule create_grid_parts)
  have frame: "comodo_frame ds ds'"
    unfolding ds' by (rule comodo_frame_annotate)
  from frame have names: "map fst (variables ds') = map fst (variables ds)"
    and coords: "coord_names ds' = coord_names ds"
    by (simp_all add: comodo_frame_def)
  have vars: "\<exists>v'. map_of (variables ds') name = Some v' \<and> dims v' = dims v \<and> data v' = data v
           \<and> encoding v' = encoding v
           \<and> (\<forall>k. k \<noteq> ''axis'' \<and> k \<noteq> ''c_grid_axis_shift''
                  \<longrightarrow> map_of (attrs v') k = map_of (attrs v) k)
           \<and> (name \<notin> set (ds_dims ds) \<longrightarrow> v' = v)"
    if "map_of (variables ds) name = Some v"
  proof -
    from that frame obtain v' where "map_of (variables ds') name = Some v'"
      and "same_but_comodo v v'" and "name \<notin> set (ds_dims ds) \<longrightarrow> v' = v"
      unfolding comodo_frame_def by blast
    then show ?thesis
      by (auto simp: same_but_comodo_def)
  qed
  have cleaned: "map_of (dim_attrs ds' dim) ''axis'' = None
      \<and> map_of (dim_attrs ds' dim) ''c_grid_axis_shift'' = None"
    if "dim \<in> set (ds_dims ds) \<and> dim \<notin> set (map (\<lambda>(a, d, s). d) (entries coords))"
  proof -
    from that have dim: "dim \<in> set (ds_dims ds)"
      and "dim \<notin> set (map (\<lambda>(a, d, s). d) (entries coords))"
      by blast+
    then have none: "filter (\<lambda>(a, d, s). d = dim) (entries coords) = []"
      by (simp only: unnamed_iff)
    then have "filter (\<lambda>(a, d, s). d = dim \<and> truthy s) (entries coords) = []"
      by (auto simp: filter_empty_conv)
    with none axis_after_annotate [OF dim, of coords] shift_after_annotate [OF dim, of coords]
    show ?thesis
      by (simp add: ds')
  qed
  from names coords vars cleaned show ?thesis
    by blast
qed

theorem create_grid_in_place_witness:
  "map fst (variables (fst (create_grid comodo_Grid grid_example
        (Some [(''Y'', [(''n'', PFloat ''0.5'')])]) ([] :: string list) (None :: unit option))))
     = [''X'', ''U'']
   \<and> map_of (variables (fst (create_grid comodo_Grid grid_example
        (Some [(''Y'', [(''n'', PFloat ''0.5'')])]) ([] :: string list) (None :: unit option))))
        ''U'' = map_of (variables grid_example) ''U''
   \<and> map_of (dim_attrs (fst (create_grid comodo_Grid grid_example
        (Some [(''Y'', [(''n'', PFloat ''0.5'')])]) ([] :: string list) (None :: unit option)))
        ''X'') ''axis'' = None"
proof -
  let ?c = "Some [(''Y'', [(''n'', PFloat ''0.5'')])]"
  let ?r = "create_grid comodo_Grid grid_example ?c ([] :: string list) (None :: unit option)"
  have call: "?r = (fst ?r, fst (snd ?r), snd (snd ?r))"
    by simp
  have names: "map fst (variables grid_example) = [''X'', ''U'']"
    by (simp add: grid_example_def)
  have U: "map_of (variables grid_example) ''U'' =
      Some \<lparr>dims = [''n'', ''X''], data = \<lparr>shape = [1, 2], elems = [PInt 3, PInt 4]\<rparr>,
            attrs = [], encoding = []\<rparr>" (is "_ = Some ?U")
    by (simp add: grid_example_def)
  have notdim: "''U'' \<notin> set (ds_dims grid_example)"
    and X: "''X'' \<in> set (ds_dims grid_example)"
    and unnamed: "''X'' \<notin> set (map (\<lambda>(a, d, s). d) (entries ?c))"
    by (simp_all add: ds_dims_def grid_example_def entries_def)
  note frame = create_grid_in_place [OF call, of "''U''" ?U "''X''"]
  from frame U notdim have "map_of (variables (fst ?r)) ''U'' = Some ?U"
    by auto
  moreover from frame X unnamed have "map_of (dim_attrs (fst ?r) ''X'') ''axis'' = None"
    by blast
  moreover from frame names have "map fst (variables (fst ?r)) = [''X'', ''U'']"
    by simp
  ultimately show ?thesis
    using U by simp
qed

lemma follows_comodo_comodo_Grid: "follows_comodo comodo_Grid"
  by (auto simp: follows_comodo_def comodo_Grid_def)

lemma comodo_axes_Nil:
  "comodo_axes ds = [] \<longleftrightarrow> (\<forall>d \<in> set (ds_dims ds). map_of (dim_attrs ds d) ''axis'' = None)"
  by (auto simp: comodo_axes_def List.map_filter_def filter_empty_conv)

lemma coordinate_labels_Nil:
  "coordinate_labels ds coords = []
     \<longleftrightarrow> (\<forall>(axis, dim, shift) \<in> set (entries coords). \<not> dimension_coordinate ds dim)"
  by (auto simp: coordinate_labels_def filter_empty_conv)

lemma no_axes_after_annotate:
  "comodo_axes (fst (annotate ds coords)) = [] \<longleftrightarrow> coordinate_labels ds coords = []"
proof -
  let ?ds' = "fst (annotate ds coords)"
  have dims: "ds_dims ?ds' = ds_dims ds"
    using comodo_frame_annotate [of ds coords] by (simp add: comodo_frame_def)
  have key: "map_of (dim_attrs ?ds' d) ''axis'' = None
      \<longleftrightarrow> \<not> (dimension_coordinate ds d \<and> (\<exists>a s. (a, d, s) \<in> set (entries coords)))"
    if d: "d \<in> set (ds_dims ds)" for d
  proof -
    have "filter (\<lambda>(a, x, s). x = d) (entries coords) = []
        \<longleftrightarrow> \<not> (\<exists>a s. (a, d, s) \<in> set (entries coords))"
      by (auto simp: filter_empty_conv)
    with d show ?thesis
      by (auto simp: axis_after_annotate [OF d] dimension_coordinate_def map_of_eq_None_iff
          split: list.splits)
  qed
  show ?thesis
    unfolding comodo_axes_Nil coordinate_labels_Nil dims
  proof
    assume all: "\<forall>d \<in> set (ds_dims ds). map_of (dim_attrs ?ds' d) ''axis'' = None"
    show "\<forall>(axis, dim, shift) \<in> set (entries coords). \<not> dimension_coordinate ds dim"
    proof (clarify)
      fix axis dim shift
      assume e: "(axis, dim, shift) \<in> set (entries coords)" and dc: "dimension_coordinate ds dim"
      from dc have d: "dim \<in> set (ds_dims ds)"
        by (simp add: dimension_coordinate_def)
      with all have "map_of (dim_attrs ?ds' dim) ''axis'' = None"
        by blast
      with key [OF d] e dc show False
        by blast
    qed
  next
    assume none: "\<forall>(axis, dim, shift) \<in> set (entries coords). \<not> dimension_coordinate ds dim"
    show "\<forall>d \<in> set (ds_dims ds). map_of (dim_attrs ?ds' d) ''axis'' = None"
    proof
      fix d
      assume d: "d \<in> set (ds_dims ds)"
      from none have "\<not> (dimension_coordinate ds d \<and> (\<exists>a s. (a, d, s) \<in> set (entries coords)))"
        by blast
      with key [OF d] show "map_of (dim_attrs ?ds' d) ''axis'' = None"
        by blast
    qed
  qed
qed

text \<open>
  C7 (as stated, refuted). With the specification \<^verbatim>\<open>{'Y': {'n': None}}\<close> on the example
  dataset, the axis label \<^verbatim>\<open>Y\<close> names \<^verbatim>\<open>n\<close>, which is a dimension of the dataset (no
  warning is emitted); yet \<^verbatim>\<open>n\<close> has no coordinate variable to hold the label, the grid
  has no axes and the call returns \<open>None\<close>.
\<close>

theorem create_grid_bare_dimension:
  "''n'' \<in> set (ds_dims grid_example)
   \<and> fst (snd (create_grid comodo_Grid grid_example (Some [(''Y'', [(''n'', PNone)])])
        ([] :: string list) (None :: unit option))) = []
   \<and> snd (snd (create_grid comodo_Grid grid_example (Some [(''Y'', [(''n'', PNone)])])
        ([] :: string list) (None :: unit option))) = Inr None"
  by (simp add: eval_defs)

text \<open>
  C7 (amended). When \<^verbatim>\<open>xgcm.Grid\<close> follows the comodo convention and \<^verbatim>\<open>_create_grid\<close>
  returns, it returns \<open>None\<close> if and only if no axis label of the specification names a
  dimension of the dataset that has a coordinate variable; this is the case if and only
  if no dimension of the annotated dataset carries an axis label, so that the grid has
  no axes. A grid that it returns has at least one axis.
\<close>

theorem create_grid_returns_None:
  assumes "follows_comodo Grid"
    and "create_grid Grid ds coords periodic fc = (ds', ws, Inr r)"
  shows "(r = None \<longleftrightarrow> coordinate_labels ds coords = [])
    \<and> (r = None \<longleftrightarrow> comodo_axes ds' = [])
    \<and> (\<forall>g. r = Some g \<longrightarrow> axes g \<noteq> [])"
proof -
  from assms(2) have ds': "ds' = fst (annotate ds coords)"
    and res: "Inr r = ebind (Grid ds' periodic fc)
        (\<lambda>grid. if length (axes grid) = 0 then Inr None else Inr (Some grid))"
    by (rule create_grid_parts)+
  from res obtain grid where grid: "Grid ds' periodic fc = Inr grid"
    and r: "r = (if axes grid = [] then None else Some grid)"
    by (cases "Grid ds' periodic fc") (auto simp: ebind_def split: if_splits)
  from assms(1) grid have "set (axes grid) = set (comodo_axes ds')"
    unfolding follows_comodo_def by blast
  then have "axes grid = [] \<longleftrightarrow> comodo_axes ds' = []"
    by (metis set_empty)
  with r have labels: "r = None \<longleftrightarrow> comodo_axes ds' = []"
    by simp
  then have spec: "r = None \<longleftrightarrow> coordinate_labels ds coords = []"
    by (simp add: ds' no_axes_after_annotate)
  have nonempty: "\<forall>g. r = Some g \<longrightarrow> axes g \<noteq> []"
    using r by (auto split: if_splits)
  from spec labels nonempty show ?thesis
    by blast
qed

theorem create_grid_returns_None_witness:
  "follows_comodo (comodo_Grid :: dataset \<Rightarrow> string list \<Rightarrow> unit option \<Rightarrow> error + grid)
   \<and> coordinate_labels grid_example (Some [(''Y'', [(''n'', PNone), (''q'', PNone)])]) = []
   \<and> snd (snd (create_grid comodo_Grid grid_example (Some [(''Y'', [(''n'', PNone), (''q'', PNone)])])
        ([] :: string list) (None :: unit option))) = Inr None
   \<and> coordinate_labels grid_example (Some [(''X'', [(''X'', PNone)])]) = [''X'']
   \<and> snd (snd (create_grid comodo_Grid grid_example (Some [(''X'', [(''X'', PNone)])])
        ([] :: string list) (None :: unit option))) = Inr (Some \<lparr>axes = [PStr ''X'']\<rparr>)"
proof -
  let ?G = "comodo_Grid :: dataset \<Rightarrow> string list \<Rightarrow> unit option \<Rightarrow> error + grid"
  let ?c1 = "Some [(''Y'', [(''n'', PNone), (''q'', PNone)])]"
  let ?c2 = "Some [(''X'', [(''X'', PNone)])]"
  let ?r1 = "create_grid ?G grid_example ?c1 [] None"
  let ?r2 = "create_grid ?G grid_example ?c2 [] None"
  have G: "follows_comodo ?G"
    by (rule follows_comodo_comodo_Grid)
  have res2: "coordinate_labels grid_example ?c2 = [''X'']"
    by (simp add: coordinate_labels_def entries_def dimension_coordinate_def ds_dims_def
        grid_example_def)
  have ret1: "snd (snd ?r1) = Inr None"
    and ret2: "snd (snd ?r2) = Inr (Some \<lparr>axes = [PStr ''X'']\<rparr>)"
    by (simp_all add: eval_defs)
  from ret1 have call: "?r1 = (fst ?r1, fst (snd ?r1), Inr None)"
    by (metis prod.collapse)
  from create_grid_returns_None [OF G call] have res1: "coordinate_labels grid_example ?c1 = []"
    by simp
  with G res2 ret1 ret2 show ?thesis
    by simp
qed

section \<open>Theorems about the POP functions\<close>

lemma np_unbound: "load_global ''np'' = Inl (NameError ''np'')"
  by (simp add: load_global_def module_globals_def)

lemma np_arange_len_raises: "np_arange_len ds name offset = Inl (NameError ''np'')"
  by (simp add: np_arange_len_def np_unbound ebind_def)

lemma add_pop_dims_raises: "add_pop_dims_to_dataset ds = Inl (NameError ''np'')"
  by (simp add: add_pop_dims_to_dataset_def np_arange_len_raises ebind_def)

lemma relabel_pop_dims_raises: "relabel_pop_dims ds = Inl (NameError ''np'')"
  by (simp add: relabel_pop_dims_def add_pop_dims_raises ebind_def)

lemma distinct_grid_locs: "distinct (map fst grid_locs)"
  by (simp add: grid_locs_def)

text \<open>
  What the loop of \<^verbatim>\<open>_relabel_pop_dims\<close> is written to do with variables that carry no
  \<^verbatim>\<open>grid_loc\<close> attribute: it passes over them, so a dataset without such attributes comes
  out as it went in.
\<close>

lemma relabel_loop_untagged:
  assumes "\<And>n. n \<in> set names \<Longrightarrow> \<exists>v. map_of (variables ds) n = Some v \<and> map_of (attrs v) ''grid_loc'' = None"
  shows "relabel_loop names ds = Inr ds"
  using assms
proof (induction names)
  case Nil
  show ?case by simp
next
  case (Cons n names)
  from Cons.prems [of n] obtain v where "map_of (variables ds) n = Some v"
    and "map_of (attrs v) ''grid_loc'' = None"
    by auto
  moreover have "relabel_loop names ds = Inr ds"
    by (rule Cons.IH) (simp add: Cons.prems)
  ultimately show ?case
    by (simp add: getitem_def ebind_def)
qed

text \<open>
  C8 (defect of the code). The axis-synthesis step \<^verbatim>\<open>_add_pop_dims_to_dataset\<close> should
  return the dataset with the new staggered coordinate axes. The module binds
  \<^verbatim>\<open>numpy\<close> but never \<^verbatim>\<open>np\<close>, so the first assignment (line 361) raises NameError and
  the function returns no dataset, on the example POP dataset as on any other.
\<close>

theorem add_pop_dims_to_dataset_NameError:
  "''np'' \<notin> set module_globals \<and> ''numpy'' \<in> set module_globals
   \<and> add_pop_dims_to_dataset pop_example = Inl (NameError ''np'')"
  by (simp add: add_pop_dims_raises) (simp add: module_globals_def)

text \<open>
  C2 (defect of the code). On the example POP dataset the registry tags \<^verbatim>\<open>TEMP\<close> with
  the code 3111, which decodes to (z_t, XT, XT); relabeling should give \<^verbatim>\<open>TEMP\<close> these
  dimensions. \<^verbatim>\<open>_relabel_pop_dims\<close> calls \<^verbatim>\<open>_add_pop_dims_to_dataset\<close> before its loop, so
  it raises NameError and returns nothing.
\<close>

theorem relabel_pop_dims_NameError:
  "map_of (variables (label_coord_grid_locs pop_example)) ''TEMP'' =
     Some \<lparr>dims = [''z_t'', ''nlat'', ''nlon''],
           data = \<lparr>shape = [2, 3, 4], elems = replicate 24 (PFloat ''4.0'')\<rparr>,
           attrs = [(''units'', PStr ''degC''), (''grid_loc'', PStr ''3111'')],
           encoding = []\<rparr>
   \<and> dims_from_grid_loc (PStr ''3111'') = Inr (Some [''z_t'', ''XT'', ''XT''])
   \<and> relabel_pop_dims pop_example = Inl (NameError ''np'')"
proof -
  have "map_of (variables (label_coord_grid_locs pop_example)) ''TEMP'' =
     Some \<lparr>dims = [''z_t'', ''nlat'', ''nlon''],
           data = \<lparr>shape = [2, 3, 4], elems = replicate 24 (PFloat ''4.0'')\<rparr>,
           attrs = [(''units'', PStr ''degC''), (''grid_loc'', PStr ''3111'')],
           encoding = []\<rparr>"
    by (simp add: label_coord_grid_locs_def pop_example_def ds_copy_def map_attrs_def
        grid_locs_def)
  moreover have "dims_from_grid_loc (PStr ''3111'') = Inr (Some [''z_t'', ''XT'', ''XT''])"
    by (simp add: dims_from_grid_loc_def str_index_def py_int_def dict_get_def ebind_def
        Let_def)
  ultimately show ?thesis
    by (simp add: relabel_pop_dims_raises)
qed

text \<open>
  C9 (defect of the code). The example dataset has the single variable \<^verbatim>\<open>FOO\<close>, which is
  not in the registry and carries no \<^verbatim>\<open>grid_loc\<close>; relabeling should return it with its
  dimensions untouched. \<^verbatim>\<open>_relabel_pop_dims\<close> raises NameError instead, for the same
  unbound name \<^verbatim>\<open>np\<close>.
\<close>

theorem relabel_pop_dims_unregistered_NameError:
  "map_of grid_locs ''FOO'' = None
   \<and> label_coord_grid_locs unregistered_example = unregistered_example
   \<and> relabel_loop [''FOO''] unregistered_example = Inr unregistered_example
   \<and> relabel_pop_dims unregistered_example = Inl (NameError ''np'')"
proof -
  have "map_of grid_locs ''FOO'' = None"
    by (simp add: grid_locs_def)
  moreover have "label_coord_grid_locs unregistered_example = unregistered_example"
    by (simp add: label_coord_grid_locs_def unregistered_example_def ds_copy_def grid_locs_def)
  moreover have "relabel_loop [''FOO''] unregistered_example = Inr unregistered_example"
    by (rule relabel_loop_untagged) (simp add: unregistered_example_def)
  ultimately show ?thesis
    by (simp add: relabel_pop_dims_raises)
qed

end
